theory Spec2Isabelle
  imports Main
begin

section \<open>Values and exceptions of the host language\<close>

text \<open>
  The chat engine of \<^verbatim>\<open>chat_engine.py\<close> is glue between three collaborators: the
  conversation history, the vector-search data manager and the completion chain. The
  values that cross these boundaries are Python values. The retriever is documented to
  return a list of dictionaries, but nothing in the engine checks that, so the model keeps
  the shapes that make the list comprehension of \<^verbatim>\<open>generate_best_practice\<close> behave
  differently: a list, a dictionary (keys in insertion order), a string, an integer, None.
\<close>

datatype pyval =
    PyNone
  | PyInt int
  | PyStr string
  | PyList "pyval list"
  | PyDict "(string \<times> pyval) list"

text \<open>
  A raised exception. \<open>KeyError k\<close> and \<open>TypeError\<close> are what the interpreter raises
  for a missing dictionary key and for an operand of the wrong kind. \<open>OtherException n\<close>
  stands for any other instance of the class \<^verbatim>\<open>Exception\<close> (a collaborator's connection
  error, say), named \<open>n\<close>. The last three derive from \<^verbatim>\<open>BaseException\<close> only.
\<close>

datatype py_exc =
    KeyError string
  | TypeError
  | OtherException string
  | KeyboardInterrupt
  | SystemExit int
  | GeneratorExit

text \<open>\<^verbatim>\<open>isinstance(x, Exception)\<close>: what the clause \<^verbatim>\<open>except Exception\<close> matches.\<close>

fun is_Exception :: "py_exc \<Rightarrow> bool" where
  "is_Exception (KeyError k) = True"
| "is_Exception TypeError = True"
| "is_Exception (OtherException n) = True"
| "is_Exception KeyboardInterrupt = False"
| "is_Exception (SystemExit c) = False"
| "is_Exception GeneratorExit = False"

text \<open>
  \<^verbatim>\<open>for response in similar_responses\<close>: the elements of a list, the keys of a dictionary,
  the one-character strings of a string; None and integers are not iterable.
\<close>

fun py_iter :: "pyval \<Rightarrow> py_exc + pyval list" where
  "py_iter (PyList xs) = Inr xs"
| "py_iter (PyDict kvs) = Inr (map (\<lambda>kv. PyStr (fst kv)) kvs)"
| "py_iter (PyStr s) = Inr (map (\<lambda>c. PyStr [c]) s)"
| "py_iter PyNone = Inl TypeError"
| "py_iter (PyInt i) = Inl TypeError"

text \<open>
  \<^verbatim>\<open>response[key]\<close> with a string key: a dictionary looks the key up and raises KeyError
  when it is absent; every other shape raises TypeError.
\<close>

fun py_getitem :: "pyval \<Rightarrow> string \<Rightarrow> py_exc + pyval" where
  "py_getitem (PyDict kvs) k = (case map_of kvs k of None \<Rightarrow> Inl (KeyError k) | Some v \<Rightarrow> Inr v)"
| "py_getitem (PyList xs) k = Inl TypeError"
| "py_getitem (PyStr s) k = Inl TypeError"
| "py_getitem PyNone k = Inl TypeError"
| "py_getitem (PyInt i) k = Inl TypeError"

text \<open>
  \<^verbatim>\<open>[response["answer"] for response in similar_responses]\<close>, once the iteration has
  started: the elements are visited in order, and the first subscript that raises ends the
  comprehension with that exception; the answers gathered so far are lost.
\<close>

fun answers :: "pyval list \<Rightarrow> py_exc + pyval list" where
  "answers [] = Inr []"
| "answers (response # rest) =
     (case py_getitem response ''answer'' of
        Inl x \<Rightarrow> Inl x
      | Inr a \<Rightarrow> (case answers rest of Inl x \<Rightarrow> Inl x | Inr as \<Rightarrow> Inr (a # as)))"

text \<open>A question/answer record as the retriever is documented to return it.\<close>

definition qa_record :: "string \<times> string \<Rightarrow> pyval" where
  "qa_record qa = PyDict [(''question'', PyStr (fst qa)), (''answer'', PyStr (snd qa))]"

section \<open>The engine and its surroundings\<close>

text \<open>
  Modelled from the spec: the class \<^verbatim>\<open>ChatHistory\<close> (module \<^verbatim>\<open>chat_history\<close>), which the
  engine imports. The spec gives it as an append-only ordered sequence
  of Turns, a Turn being a role and a text, with \<^verbatim>\<open>addMessage(role, text)\<close> appending a
  Turn without validating either part. The engine passes the roles as the strings
  \<^verbatim>\<open>"user"\<close> and \<^verbatim>\<open>"bot"\<close>.
\<close>

record turn =
  turn_role :: string
  turn_text :: string

definition add_message :: "turn list \<Rightarrow> string \<Rightarrow> string \<Rightarrow> turn list" where
  "add_message h r t = h @ [\<lparr>turn_role = r, turn_text = t\<rparr>]"

text \<open>
  A template is kept as its literal pieces and its named placeholders, in order.
\<close>

datatype segment = Lit string | Slot string

record prompt_template =
  input_variables :: "string list"
  template :: "segment list"

text \<open>
  The attributes of a \<^verbatim>\<open>ChatEngine\<close>. \<open>data_manager\<close> is the method
  \<^verbatim>\<open>data_manager.find\<close> and \<open>chain\<close> is the method \<^verbatim>\<open>chain.run\<close> of the two
  collaborators: each answers a call with a value or with a raised exception.
\<close>

record engine =
  chat_history :: "turn list"
  data_manager :: "string \<Rightarrow> py_exc + pyval"
  system_template :: "segment list"
  system_prompt :: prompt_template
  chain :: "string \<Rightarrow> pyval list \<Rightarrow> py_exc + string"

text \<open>
  What the engine does outside itself: the calls it makes to its collaborators (the only
  places where a network request can start), in order; the exceptions \<open>e\<close> for which it
  printed the line \<^verbatim>\<open>Error in generating best practices: {e}\<close>; what it wrote to the
  error stream; and the process-wide \<^verbatim>\<open>openai.api_key\<close>.

  Printing that line can itself fail: \<^verbatim>\<open>str(e)\<close> belongs to the class of \<open>e\<close> and may
  raise, and the standard output may be unable to encode the text it gives.
  \<open>print_raises\<close> is what the statement raises for an exception \<open>e\<close> in this process, if
  anything.
\<close>

datatype event =
    New_QADataManager
  | New_ChatOpenAI
  | Find string
  | Run string "pyval list"

record world =
  calls :: "event list"
  stdout :: "py_exc list"
  stderr :: string
  openai_api_key :: "string option"
  print_raises :: "py_exc \<Rightarrow> py_exc option"

text \<open>
  \<open>KeyError k\<close> and \<open>TypeError\<close> are the exceptions as the interpreter raises them. Their
  text is the interpreter's own: the quoted key, and an English message. When the key is
  ASCII the text is ASCII, \<^verbatim>\<open>str\<close> returns it, and every encoding of the standard output
  can write it.
\<close>

fun plain_text :: "py_exc \<Rightarrow> bool" where
  "plain_text (KeyError k) = list_all (\<lambda>c. \<not> digit7 c) k"
| "plain_text TypeError = True"
| "plain_text (OtherException n) = False"
| "plain_text KeyboardInterrupt = False"
| "plain_text (SystemExit c) = False"
| "plain_text GeneratorExit = False"

text \<open>
  The statement \<^verbatim>\<open>print(f"Error in generating best practices: {e}")\<close>: \<open>None\<close> when the
  line is printed, \<open>Some y\<close> when the statement raises \<open>y\<close> and prints nothing.
\<close>

definition print_error :: "world \<Rightarrow> py_exc \<Rightarrow> py_exc option" where
  "print_error w x = (if plain_text x then None else print_raises w x)"

section \<open>Retrieval of best practices\<close>

text \<open>
  The body of the protected block of \<^verbatim>\<open>generate_best_practice\<close>: the call of
  \<^verbatim>\<open>find\<close>, then the comprehension over its result.
\<close>

definition retrieval :: "engine \<Rightarrow> string \<Rightarrow> py_exc + pyval list" where
  "retrieval e user_message =
     (case data_manager e user_message of
        Inl x \<Rightarrow> Inl x
      | Inr similar_responses \<Rightarrow>
          (case py_iter similar_responses of
             Inl x \<Rightarrow> Inl x
           | Inr responses \<Rightarrow> answers responses))"

text \<open>
  \<^verbatim>\<open>generate_best_practice\<close>. The handler \<^verbatim>\<open>except Exception as e\<close> prints the
  exception and then returns the empty list; when the print raises, that new exception
  leaves the method and nothing is returned. An exception outside the class
  \<^verbatim>\<open>Exception\<close> is not matched and leaves the method. The method assigns no attribute
  of the engine. The result is the engine, the world and the outcome.
\<close>

definition generate_best_practice ::
  "engine \<Rightarrow> string \<Rightarrow> world \<Rightarrow> engine \<times> world \<times> (py_exc + pyval list)" where
  "generate_best_practice e user_message w =
     (let w1 = w\<lparr>calls := calls w @ [Find user_message]\<rparr> in
      case retrieval e user_message of
        Inr best \<Rightarrow> (e, w1, Inr best)
      | Inl x \<Rightarrow>
          if is_Exception x then
            (case print_error w1 x of
               None \<Rightarrow> (e, w1\<lparr>stdout := stdout w1 @ [x]\<rparr>, Inr [])
             | Some y \<Rightarrow> (e, w1, Inl y))
          else (e, w1, Inl x))"

section \<open>The orchestrator\<close>

text \<open>
  \<^verbatim>\<open>process_user_input\<close>, statement by statement: the user's message is appended to
  the history; the best practices are fetched; the chain is run on the message and the
  best practices; the response is appended to the history and returned. Nothing here
  handles an exception, so one that leaves \<^verbatim>\<open>generate_best_practice\<close> or
  \<^verbatim>\<open>chain.run\<close> leaves the method at that statement, with the state as it is then.
\<close>

definition process_user_input ::
  "engine \<Rightarrow> string \<Rightarrow> world \<Rightarrow> engine \<times> world \<times> (py_exc + string)" where
  "process_user_input e message w =
     (let e1 = e\<lparr>chat_history := add_message (chat_history e) ''user'' message\<rparr> in
      case generate_best_practice e1 message w of
        (e2, w2, Inl x) \<Rightarrow> (e2, w2, Inl x)
      | (e2, w2, Inr best_practices) \<Rightarrow>
          (let w3 = w2\<lparr>calls := calls w2 @ [Run message best_practices]\<rparr> in
           case chain e2 message best_practices of
             Inl x \<Rightarrow> (e2, w3, Inl x)
           | Inr bot_response \<Rightarrow>
               (e2\<lparr>chat_history := add_message (chat_history e2) ''bot'' bot_response\<rparr>,
                w3, Inr bot_response)))"

section \<open>Construction\<close>

text \<open>
  The constructors the engine calls in \<^verbatim>\<open>__init__\<close> belong to other modules and
  libraries; each is taken as given, with the outcome of the call the engine makes:
  \<^verbatim>\<open>QADataManager()\<close>, \<^verbatim>\<open>ChatOpenAI(temperature, model)\<close>,
  \<^verbatim>\<open>PromptTemplate(input_variables, template)\<close> and \<^verbatim>\<open>LLMChain(llm, prompt)\<close>.
\<close>

record library =
  new_QADataManager :: "py_exc + (string \<Rightarrow> py_exc + pyval)"
  new_ChatOpenAI :: "int \<Rightarrow> string \<Rightarrow> py_exc + (string \<Rightarrow> py_exc + string)"
  new_PromptTemplate :: "string list \<Rightarrow> segment list \<Rightarrow> py_exc + prompt_template"
  new_LLMChain ::
    "(string \<Rightarrow> py_exc + string) \<Rightarrow> prompt_template \<Rightarrow>
       py_exc + (string \<Rightarrow> pyval list \<Rightarrow> py_exc + string)"

text \<open>
  \<^verbatim>\<open>ChatEngine.__init__\<close>. \<open>environ\<close> is \<^verbatim>\<open>os.environ\<close> and \<open>tmpl\<close> the module
  constant \<^verbatim>\<open>templates.system_prompt.system_prompt\<close>. Reading an absent key raises
  KeyError, which the handler answers by writing to the error stream and calling
  \<^verbatim>\<open>sys.exit(1)\<close>, that is by raising \<open>SystemExit 1\<close>: nothing after it runs. An
  exception of a constructor leaves \<^verbatim>\<open>__init__\<close>. The new history is empty (modelled
  from the spec, as \<^verbatim>\<open>ChatHistory\<close> is).
\<close>

definition ChatEngine_init ::
  "(string \<rightharpoonup> string) \<Rightarrow> library \<Rightarrow> segment list \<Rightarrow> world \<Rightarrow> world \<times> (py_exc + engine)" where
  "ChatEngine_init environ lib tmpl w =
     (case environ ''OPENAI_API_KEY'' of
        None \<Rightarrow> (w\<lparr>stderr := stderr w @ ''API key not found.''\<rparr>, Inl (SystemExit 1))
      | Some key \<Rightarrow>
          (let w1 = w\<lparr>openai_api_key := Some key\<rparr>;
               w2 = w1\<lparr>calls := calls w1 @ [New_QADataManager]\<rparr> in
           case new_QADataManager lib of
             Inl x \<Rightarrow> (w2, Inl x)
           | Inr dm \<Rightarrow>
               (let w3 = w2\<lparr>calls := calls w2 @ [New_ChatOpenAI]\<rparr> in
                case new_ChatOpenAI lib 0 ''gpt-3.5-turbo'' of
                  Inl x \<Rightarrow> (w3, Inl x)
                | Inr llm \<Rightarrow>
                    (case new_PromptTemplate lib [''message'', ''best_practice''] tmpl of
                       Inl x \<Rightarrow> (w3, Inl x)
                     | Inr pt \<Rightarrow>
                         (case new_LLMChain lib llm pt of
                            Inl x \<Rightarrow> (w3, Inl x)
                          | Inr ch \<Rightarrow>
                              (w3, Inr \<lparr>chat_history = [], data_manager = dm,
                                       system_template = tmpl, system_prompt = pt,
                                       chain = ch\<rparr>))))))"

section \<open>Prompt composition\<close>

text \<open>
  Modelled from the spec: the PromptComposer, which the engine gets from a library and
  whose template text (module \<^verbatim>\<open>templates.system_prompt\<close>) it imports. The spec gives
  it as a pure function of the template and a variable map that substitutes named
  placeholders and fails when a placeholder is missing from the map.
\<close>

fun bind_template :: "segment list \<Rightarrow> (string \<rightharpoonup> string) \<Rightarrow> py_exc + string" where
  "bind_template [] vars = Inr []"
| "bind_template (Lit s # rest) vars =
     (case bind_template rest vars of Inl x \<Rightarrow> Inl x | Inr r \<Rightarrow> Inr (s @ r))"
| "bind_template (Slot n # rest) vars =
     (case vars n of
        None \<Rightarrow> Inl (KeyError n)
      | Some v \<Rightarrow> (case bind_template rest vars of Inl x \<Rightarrow> Inl x | Inr r \<Rightarrow> Inr (v @ r)))"

text \<open>
  Modelled from the spec: step 3 of the orchestrator, the binding of the two variables
  \<^verbatim>\<open>message\<close> and \<^verbatim>\<open>best_practice\<close>. How the sequence of best practices becomes
  the text of one placeholder is left open by the spec; it is the parameter \<open>join\<close>.
\<close>

definition compose_prompt ::
  "(pyval list \<Rightarrow> string) \<Rightarrow> prompt_template \<Rightarrow> string \<Rightarrow> pyval list \<Rightarrow> py_exc + string" where
  "compose_prompt join pt message best_practice =
     bind_template (template pt)
       [''message'' \<mapsto> message, ''best_practice'' \<mapsto> join best_practice]"

text \<open>
  Modelled from the spec: steps 3 and 4 together, a chain that composes the prompt and
  hands it to the completion model \<open>llm\<close>.
\<close>

definition llm_chain ::
  "(pyval list \<Rightarrow> string) \<Rightarrow> (string \<Rightarrow> py_exc + string) \<Rightarrow> prompt_template \<Rightarrow>
     string \<Rightarrow> pyval list \<Rightarrow> py_exc + string" where
  "llm_chain join llm pt message best_practice =
     (case compose_prompt join pt message best_practice of
        Inl x \<Rightarrow> Inl x
      | Inr p \<Rightarrow> llm p)"

section \<open>Concrete engines\<close>

text \<open>Small engines and surroundings on which the theorems below are run.\<close>

definition world0 :: world where
  "world0 = \<lparr>calls = [], stdout = [], stderr = [], openai_api_key = None,
             print_raises = (\<lambda>x. None)\<rparr>"

text \<open>A process whose standard output cannot encode the text of a collaborator's error.\<close>

definition garbled_world :: world where
  "garbled_world = world0\<lparr>print_raises := (\<lambda>x. Some (OtherException ''UnicodeEncodeError''))\<rparr>"

definition demo_prompt :: prompt_template where
  "demo_prompt =
     \<lparr>input_variables = [''message'', ''best_practice''],
      template = [Lit ''Known answers: '', Slot ''best_practice'', Lit '' Question: '',
                  Slot ''message'']\<rparr>"

fun demo_join :: "pyval list \<Rightarrow> string" where
  "demo_join [] = []"
| "demo_join (PyStr s # rest) = s @ ''; '' @ demo_join rest"
| "demo_join (v # rest) = demo_join rest"

definition demo_llm :: "string \<Rightarrow> py_exc + string" where
  "demo_llm p = Inr (''Re: '' @ p)"

definition portal_record :: pyval where
  "portal_record = qa_record (''How to reset?'', ''Use the self-service portal'')"

definition demo_engine :: engine where
  "demo_engine =
     \<lparr>chat_history = [],
      data_manager = (\<lambda>q. Inr (PyList [portal_record])),
      system_template = template demo_prompt,
      system_prompt = demo_prompt,
      chain = llm_chain demo_join demo_llm demo_prompt\<rparr>"

definition offline_engine :: engine where
  "offline_engine = demo_engine\<lparr>data_manager := (\<lambda>q. Inl (OtherException ''ConnectionError''))\<rparr>"

definition interrupted_engine :: engine where
  "interrupted_engine = demo_engine\<lparr>data_manager := (\<lambda>q. Inl KeyboardInterrupt)\<rparr>"

definition malformed_engine :: engine where
  "malformed_engine =
     demo_engine\<lparr>data_manager :=
       (\<lambda>q. Inr (PyList [portal_record, PyDict [(''question'', PyStr ''Opening hours?'')]]))\<rparr>"

definition two_answers_engine :: engine where
  "two_answers_engine =
     demo_engine\<lparr>data_manager :=
       (\<lambda>q. Inr (PyList (map qa_record
          [(''How to reset?'', ''Use the self-service portal''),
           (''Opening hours?'', ''Nine to five'')])))\<rparr>"

definition overloaded_engine :: engine where
  "overloaded_engine = demo_engine\<lparr>chain := (\<lambda>m bp. Inl (OtherException ''RateLimitError''))\<rparr>"

definition demo_library :: library where
  "demo_library =
     \<lparr>new_QADataManager = Inr (data_manager demo_engine),
      new_ChatOpenAI = (\<lambda>temperature model. Inr demo_llm),
      new_PromptTemplate = (\<lambda>vars tmpl. Inr \<lparr>input_variables = vars, template = tmpl\<rparr>),
      new_LLMChain = (\<lambda>llm pt. Inr (llm_chain demo_join llm pt))\<rparr>"

lemmas demo_defs =
  world0_def garbled_world_def print_error_def demo_prompt_def demo_llm_def portal_record_def qa_record_def demo_engine_def
  offline_engine_def interrupted_engine_def malformed_engine_def two_answers_engine_def
  overloaded_engine_def demo_library_def llm_chain_def compose_prompt_def add_message_def
  retrieval_def generate_best_practice_def process_user_input_def ChatEngine_init_def Let_def

section \<open>How the comprehension and the handler behave\<close>

text \<open>
  Every exception the comprehension itself can raise is an instance of
  \<^verbatim>\<open>Exception\<close> with the interpreter's own text, and one element without an answer is
  enough for it to raise.
\<close>

lemma answers_qa_records: "answers (map qa_record qas) = Inr (map (\<lambda>qa. PyStr (snd qa)) qas)"
  by (induction qas) (simp_all add: qa_record_def)





lemma retrieval_history: "retrieval (e\<lparr>chat_history := h\<rparr>) m = retrieval e m"
  by (simp add: retrieval_def)

lemma generate_best_practice_returns:
  "retrieval e m = Inr bp \<Longrightarrow>
   generate_best_practice e m w = (e, w\<lparr>calls := calls w @ [Find m]\<rparr>, Inr bp)"
  by (simp add: generate_best_practice_def)

lemma print_error_calls: "print_error (w\<lparr>calls := c\<rparr>) x = print_error w x"
  by (simp add: print_error_def)




lemma generate_best_practice_recovers:
  "retrieval e m = Inl x \<Longrightarrow> is_Exception x \<Longrightarrow> print_error w x = None \<Longrightarrow>
   generate_best_practice e m w =
     (e, w\<lparr>calls := calls w @ [Find m], stdout := stdout w @ [x]\<rparr>, Inr [])"
  by (simp add: generate_best_practice_def print_error_calls)

lemma generate_best_practice_empty_after_raise:
  "retrieval e m = Inl x \<Longrightarrow> snd (snd (generate_best_practice e m w)) = Inr bp \<Longrightarrow> bp = []"
  by (auto simp: generate_best_practice_def Let_def split: if_splits option.splits)

lemma generate_best_practice_engine: "fst (generate_best_practice e m w) = e"
  by (simp add: generate_best_practice_def Let_def split: sum.splits option.splits)

section \<open>How a call of the orchestrator ends\<close>

text \<open>
  A call ends in one of three ways: the chain returns, the chain raises, or an exception
  leaves the retrieval. Each lemma gives the whole final state.
\<close>


lemma process_user_input_completes:
  assumes "snd (snd (generate_best_practice e m w)) = Inr bp" and "chain e m bp = Inr r"
  shows "process_user_input e m w =
     (e\<lparr>chat_history := chat_history e @
          [\<lparr>turn_role = ''user'', turn_text = m\<rparr>, \<lparr>turn_role = ''bot'', turn_text = r\<rparr>]\<rparr>,
      (fst (snd (generate_best_practice e m w)))\<lparr>calls := calls w @ [Find m, Run m bp]\<rparr>,
      Inr r)"
  using assms
  by (auto simp: process_user_input_def generate_best_practice_def retrieval_history
      print_error_def add_message_def Let_def split: sum.splits if_splits option.splits)

lemma process_user_input_chain_raises:
  assumes "snd (snd (generate_best_practice e m w)) = Inr bp" and "chain e m bp = Inl x"
  shows "process_user_input e m w =
     (e\<lparr>chat_history := chat_history e @ [\<lparr>turn_role = ''user'', turn_text = m\<rparr>]\<rparr>,
      (fst (snd (generate_best_practice e m w)))\<lparr>calls := calls w @ [Find m, Run m bp]\<rparr>,
      Inl x)"
  using assms
  by (auto simp: process_user_input_def generate_best_practice_def retrieval_history
      print_error_def add_message_def Let_def split: sum.splits if_splits option.splits)

lemma process_user_input_retrieval_escapes:
  assumes "snd (snd (generate_best_practice e m w)) = Inl x"
  shows "process_user_input e m w =
     (e\<lparr>chat_history := chat_history e @ [\<lparr>turn_role = ''user'', turn_text = m\<rparr>]\<rparr>,
      fst (snd (generate_best_practice e m w)), Inl x)"
  using assms
  by (auto simp: process_user_input_def generate_best_practice_def retrieval_history
      print_error_def add_message_def Let_def split: sum.splits if_splits option.splits)

section \<open>The claims\<close>

text \<open>
  Claim C1. A call of \<^verbatim>\<open>process_user_input\<close> with message \<open>m\<close> that completes and
  returns \<open>response\<close> leaves the engine as it was but for the history, which has gained
  exactly two Turns: the user's turn with text \<open>m\<close>, then the bot's turn with text
  \<open>response\<close>. The response is what the chain returned for \<open>m\<close> and the best practices
  that \<^verbatim>\<open>generate_best_practice\<close> returned; when the retrieval raised, it is what the
  chain returned for \<open>m\<close> and the empty list.
\<close>

theorem process_user_input_appends_two_turns:
  assumes "process_user_input e m w = (e', w', Inr response)"
  shows "e' = e\<lparr>chat_history := chat_history e @
             [\<lparr>turn_role = ''user'', turn_text = m\<rparr>,
              \<lparr>turn_role = ''bot'', turn_text = response\<rparr>]\<rparr>
       \<and> length (chat_history e') = length (chat_history e) + 2
       \<and> (\<exists>bp. snd (snd (generate_best_practice e m w)) = Inr bp \<and> chain e m bp = Inr response)
       \<and> (\<forall>x. retrieval e m = Inl x \<longrightarrow> chain e m [] = Inr response)"
proof (cases "snd (snd (generate_best_practice e m w))")
  case (Inl x)
  from process_user_input_retrieval_escapes [OF Inl] assms show ?thesis by simp
next
  case (Inr bp)
  show ?thesis
  proof (cases "chain e m bp")
    case (Inl x)
    from process_user_input_chain_raises [OF Inr Inl] assms show ?thesis by simp
  next
    case ran: (Inr r)
    from process_user_input_completes [OF Inr ran] assms
    have r: "r = response"
      and e': "e' = e\<lparr>chat_history := chat_history e @
             [\<lparr>turn_role = ''user'', turn_text = m\<rparr>,
              \<lparr>turn_role = ''bot'', turn_text = response\<rparr>]\<rparr>"
      by simp_all
    have empty: "chain e m [] = Inr response" if "retrieval e m = Inl x" for x
    proof -
      from generate_best_practice_empty_after_raise [OF that Inr] have "bp = []" .
      with ran r show ?thesis by simp
    qed
    from e' have "length (chat_history e') = length (chat_history e) + 2" by simp
    with e' Inr ran r empty show ?thesis by blast
  qed
qed

text \<open>
  The scenario of the spec with a retriever that answers, and the same question with a
  retriever that raises a connection error: both calls complete with two new Turns.
\<close>

theorem process_user_input_appends_two_turns_witness:
  "snd (snd (process_user_input demo_engine ''How do I reset my password?'' world0)) =
     Inr ''Re: Known answers: Use the self-service portal;  Question: How do I reset my password?''
   \<and> chat_history (fst (process_user_input demo_engine ''How do I reset my password?'' world0)) =
     [\<lparr>turn_role = ''user'', turn_text = ''How do I reset my password?''\<rparr>,
      \<lparr>turn_role = ''bot'', turn_text =
         ''Re: Known answers: Use the self-service portal;  Question: How do I reset my password?''\<rparr>]
   \<and> retrieval offline_engine ''How do I reset my password?'' = Inl (OtherException ''ConnectionError'')
   \<and> snd (snd (process_user_input offline_engine ''How do I reset my password?'' world0)) =
     Inr ''Re: Known answers:  Question: How do I reset my password?''
   \<and> chat_history (fst (process_user_input offline_engine ''How do I reset my password?'' world0)) =
     [\<lparr>turn_role = ''user'', turn_text = ''How do I reset my password?''\<rparr>,
      \<lparr>turn_role = ''bot'', turn_text = ''Re: Known answers:  Question: How do I reset my password?''\<rparr>]"
proof -
  let ?q = "''How do I reset my password?''"
  let ?on = "process_user_input demo_engine ?q world0"
  let ?off = "process_user_input offline_engine ?q world0"
  have on: "?on = (fst ?on, fst (snd ?on),
      Inr ''Re: Known answers: Use the self-service portal;  Question: How do I reset my password?'')"
    by (simp add: demo_defs)
  have off: "?off = (fst ?off, fst (snd ?off),
      Inr ''Re: Known answers:  Question: How do I reset my password?'')"
    by (simp add: demo_defs)
  have r: "retrieval offline_engine ?q = Inl (OtherException ''ConnectionError'')"
    by (simp add: demo_defs)
  have h: "chat_history demo_engine = []" "chat_history offline_engine = []"
    by (simp_all add: demo_defs)
  have a: "chat_history (fst ?on) = chat_history demo_engine @
      [\<lparr>turn_role = ''user'', turn_text = ?q\<rparr>,
       \<lparr>turn_role = ''bot'', turn_text =
         ''Re: Known answers: Use the self-service portal;  Question: How do I reset my password?''\<rparr>]"
    using process_user_input_appends_two_turns [OF on] by (elim conjE) simp
  have b: "chat_history (fst ?off) = chat_history offline_engine @
      [\<lparr>turn_role = ''user'', turn_text = ?q\<rparr>,
       \<lparr>turn_role = ''bot'', turn_text = ''Re: Known answers:  Question: How do I reset my password?''\<rparr>]"
    using process_user_input_appends_two_turns [OF off] by (elim conjE) simp
  have c: "snd (snd ?on) =
      Inr ''Re: Known answers: Use the self-service portal;  Question: How do I reset my password?''"
    by (subst on) simp
  have d: "snd (snd ?off) = Inr ''Re: Known answers:  Question: How do I reset my password?''"
    by (subst off) simp
  from a b c d r h show ?thesis by simp
qed

text \<open>
  Claim C2, as amended. When \<^verbatim>\<open>find\<close> raises an exception that is an instance of
  \<^verbatim>\<open>Exception\<close> and that the handler succeeds in printing,
  \<^verbatim>\<open>generate_best_practice\<close> returns the empty list and does not propagate it: the
  exception is printed, and nothing else happens but the call of \<^verbatim>\<open>find\<close> itself.
\<close>

theorem generate_best_practice_recovers_from_Exception:
  assumes "data_manager e m = Inl x" and "is_Exception x" and "print_error w x = None"
  shows "generate_best_practice e m w =
     (e, w\<lparr>calls := calls w @ [Find m], stdout := stdout w @ [x]\<rparr>, Inr [])"
proof -
  from assms(1) have "retrieval e m = Inl x" by (simp add: retrieval_def)
  then show ?thesis using assms(2,3) by (rule generate_best_practice_recovers)
qed

text \<open>
  A retriever that raises a connection error, in a process that can print it: the empty
  list comes back and the error is on the standard output.
\<close>

theorem generate_best_practice_recovers_from_Exception_witness:
  "data_manager offline_engine ''How do I reset my password?'' = Inl (OtherException ''ConnectionError'')
   \<and> is_Exception (OtherException ''ConnectionError'')
   \<and> print_error world0 (OtherException ''ConnectionError'') = None
   \<and> generate_best_practice offline_engine ''How do I reset my password?'' world0 =
       (offline_engine,
        world0\<lparr>calls := [Find ''How do I reset my password?''],
               stdout := [OtherException ''ConnectionError'']\<rparr>,
        Inr [])"
proof -
  have h: "data_manager offline_engine ''How do I reset my password?'' =
      Inl (OtherException ''ConnectionError'')"
    by (simp add: offline_engine_def)
  have i: "is_Exception (OtherException ''ConnectionError'')" by simp
  have p: "print_error world0 (OtherException ''ConnectionError'') = None"
    by (simp add: print_error_def world0_def)
  from generate_best_practice_recovers_from_Exception [OF h i p] h i p
  show ?thesis by (simp add: world0_def)
qed

text \<open>
  The claim as first stated speaks of any exception, and fails twice. The handler names
  the class \<^verbatim>\<open>Exception\<close>, so a KeyboardInterrupt raised while \<^verbatim>\<open>find\<close> waits for its
  answer is not caught and leaves \<^verbatim>\<open>generate_best_practice\<close>. And the handler prints
  before it returns, so when the connection error of the retriever cannot be printed, the
  error of the print leaves the method. In neither case is a list returned.
\<close>

theorem generate_best_practice_any_exception_counterexample:
  "data_manager interrupted_engine ''How do I reset my password?'' = Inl KeyboardInterrupt
   \<and> snd (snd (generate_best_practice interrupted_engine ''How do I reset my password?'' world0)) =
       Inl KeyboardInterrupt
   \<and> snd (snd (generate_best_practice interrupted_engine ''How do I reset my password?'' world0)) \<noteq>
       Inr []
   \<and> data_manager offline_engine ''How do I reset my password?'' =
       Inl (OtherException ''ConnectionError'')
   \<and> snd (snd (generate_best_practice offline_engine ''How do I reset my password?'' garbled_world)) =
       Inl (OtherException ''UnicodeEncodeError'')
   \<and> snd (snd (generate_best_practice offline_engine ''How do I reset my password?'' garbled_world)) \<noteq>
       Inr []"
  by (simp add: demo_defs)

text \<open>
  Claim C3. When \<^verbatim>\<open>find\<close> returns the list of records
  \<open>{q\<^sub>1, a\<^sub>1}, {q\<^sub>2, a\<^sub>2}, ...\<close>, \<^verbatim>\<open>generate_best_practice\<close> returns exactly the
  answers \<open>a\<^sub>1, a\<^sub>2, ...\<close>, in the retriever's order and without the questions.
\<close>

theorem generate_best_practice_answers_in_order:
  assumes "data_manager e m = Inr (PyList (map qa_record qas))"
  shows "generate_best_practice e m w =
     (e, w\<lparr>calls := calls w @ [Find m]\<rparr>, Inr (map (\<lambda>qa. PyStr (snd qa)) qas))"
proof -
  from assms have "retrieval e m = Inr (map (\<lambda>qa. PyStr (snd qa)) qas)"
    by (simp add: retrieval_def answers_qa_records)
  then show ?thesis by (rule generate_best_practice_returns)
qed

text \<open>
  Two records come back as their two answers, in the same order.
\<close>

theorem generate_best_practice_answers_in_order_witness:
  "data_manager two_answers_engine ''How do I reset my password?'' =
     Inr (PyList (map qa_record
       [(''How to reset?'', ''Use the self-service portal''), (''Opening hours?'', ''Nine to five'')]))
   \<and> snd (snd (generate_best_practice two_answers_engine ''How do I reset my password?'' world0)) =
       Inr [PyStr ''Use the self-service portal'', PyStr ''Nine to five'']"
proof -
  have h: "data_manager two_answers_engine ''How do I reset my password?'' =
     Inr (PyList (map qa_record
       [(''How to reset?'', ''Use the self-service portal''), (''Opening hours?'', ''Nine to five'')]))"
    by (simp add: two_answers_engine_def)
  from generate_best_practice_answers_in_order [OF h, of world0] h
  show ?thesis by simp
qed

text \<open>
  Claim C4, as amended. In a call of \<^verbatim>\<open>process_user_input\<close> with message \<open>m\<close> in which
  \<^verbatim>\<open>generate_best_practice\<close> returns a list \<open>bp\<close> for \<open>m\<close>, the calls made to the
  collaborators are the one to \<^verbatim>\<open>find\<close> and then exactly one to \<^verbatim>\<open>chain.run\<close>, with
  arguments \<open>m\<close> and \<open>bp\<close>; and whatever string \<open>r\<close> the chain returns is both the value
  returned and the text of the bot's Turn, the last of the history.
\<close>

theorem process_user_input_runs_chain_once:
  assumes "snd (snd (generate_best_practice e m w)) = Inr bp"
  shows "calls (fst (snd (process_user_input e m w))) = calls w @ [Find m, Run m bp]
       \<and> (\<forall>r. chain e m bp = Inr r \<longrightarrow>
            snd (snd (process_user_input e m w)) = Inr r
          \<and> chat_history (fst (process_user_input e m w)) =
              chat_history e @ [\<lparr>turn_role = ''user'', turn_text = m\<rparr>,
                                \<lparr>turn_role = ''bot'', turn_text = r\<rparr>])"
proof (cases "chain e m bp")
  case (Inl x)
  from process_user_input_chain_raises [OF assms Inl] Inl show ?thesis by simp
next
  case (Inr r)
  from process_user_input_completes [OF assms Inr] Inr show ?thesis by simp
qed

text \<open>
  The scenario of the spec: the question about the password, one record retrieved, the
  chain run once on the question and that record's answer.
\<close>

theorem process_user_input_runs_chain_once_witness:
  "snd (snd (generate_best_practice demo_engine ''How do I reset my password?'' world0)) =
     Inr [PyStr ''Use the self-service portal'']
   \<and> calls (fst (snd (process_user_input demo_engine ''How do I reset my password?'' world0))) =
     [Find ''How do I reset my password?'',
      Run ''How do I reset my password?'' [PyStr ''Use the self-service portal'']]
   \<and> chain demo_engine ''How do I reset my password?'' [PyStr ''Use the self-service portal''] =
     Inr ''Re: Known answers: Use the self-service portal;  Question: How do I reset my password?''
   \<and> snd (snd (process_user_input demo_engine ''How do I reset my password?'' world0)) =
     Inr ''Re: Known answers: Use the self-service portal;  Question: How do I reset my password?''
   \<and> chat_history (fst (process_user_input demo_engine ''How do I reset my password?'' world0)) =
     [\<lparr>turn_role = ''user'', turn_text = ''How do I reset my password?''\<rparr>,
      \<lparr>turn_role = ''bot'', turn_text =
         ''Re: Known answers: Use the self-service portal;  Question: How do I reset my password?''\<rparr>]"
proof -
  let ?q = "''How do I reset my password?''"
  have h: "snd (snd (generate_best_practice demo_engine ?q world0)) =
      Inr [PyStr ''Use the self-service portal'']"
    by (simp add: demo_defs)
  have c: "chain demo_engine ?q [PyStr ''Use the self-service portal''] =
      Inr ''Re: Known answers: Use the self-service portal;  Question: How do I reset my password?''"
    by (simp add: demo_defs)
  have n: "chat_history demo_engine = []" "calls world0 = []"
    by (simp_all add: demo_defs)
  from process_user_input_runs_chain_once [OF h] h c n show ?thesis by simp
qed

text \<open>
  The claim as first stated speaks of every message. When \<^verbatim>\<open>find\<close> is interrupted, the
  KeyboardInterrupt leaves \<^verbatim>\<open>generate_best_practice\<close> and then
  \<^verbatim>\<open>process_user_input\<close>: the only call made is the one to \<^verbatim>\<open>find\<close>, and the chain is
  not run at all.
\<close>

theorem process_user_input_chain_not_run_counterexample:
  "calls (fst (snd (process_user_input interrupted_engine ''How do I reset my password?'' world0))) =
     [Find ''How do I reset my password?'']
   \<and> snd (snd (process_user_input interrupted_engine ''How do I reset my password?'' world0)) =
     Inl KeyboardInterrupt"
  by (simp add: demo_defs)

text \<open>
  Claim C5. When \<^verbatim>\<open>chain.run\<close> raises \<open>x\<close> during \<^verbatim>\<open>process_user_input\<close>, the call
  ends with \<open>x\<close> raised to its caller: no response is returned in its place, and the
  chain has been run once only.
\<close>

theorem process_user_input_propagates_chain_error:
  assumes "snd (snd (generate_best_practice e m w)) = Inr bp" and "chain e m bp = Inl x"
  shows "snd (snd (process_user_input e m w)) = Inl x
       \<and> calls (fst (snd (process_user_input e m w))) = calls w @ [Find m, Run m bp]"
  using process_user_input_chain_raises [OF assms] by simp

text \<open>
  A chain that answers with a rate-limit error: the error is the outcome of the call.
\<close>

theorem process_user_input_propagates_chain_error_witness:
  "snd (snd (generate_best_practice overloaded_engine ''How do I reset my password?'' world0)) =
     Inr [PyStr ''Use the self-service portal'']
   \<and> chain overloaded_engine ''How do I reset my password?'' [PyStr ''Use the self-service portal''] =
     Inl (OtherException ''RateLimitError'')
   \<and> snd (snd (process_user_input overloaded_engine ''How do I reset my password?'' world0)) =
     Inl (OtherException ''RateLimitError'')
   \<and> calls (fst (snd (process_user_input overloaded_engine ''How do I reset my password?'' world0))) =
     [Find ''How do I reset my password?'',
      Run ''How do I reset my password?'' [PyStr ''Use the self-service portal'']]"
proof -
  let ?q = "''How do I reset my password?''"
  have h: "snd (snd (generate_best_practice overloaded_engine ?q world0)) =
      Inr [PyStr ''Use the self-service portal'']"
    by (simp add: demo_defs)
  have c: "chain overloaded_engine ?q [PyStr ''Use the self-service portal''] =
      Inl (OtherException ''RateLimitError'')"
    by (simp add: overloaded_engine_def)
  have n: "calls world0 = []" by (simp add: world0_def)
  from process_user_input_propagates_chain_error [OF h c] h c n show ?thesis by simp
qed

text \<open>
  Claim C6. When the environment has no \<^verbatim>\<open>OPENAI_API_KEY\<close>, the construction of the
  engine writes \<^verbatim>\<open>API key not found.\<close> to the error stream and ends with
  \<^verbatim>\<open>sys.exit(1)\<close>, the exit status 1; nothing else changes, and in particular no
  collaborator has been constructed or called, so no network request was made.
\<close>

theorem ChatEngine_init_without_key:
  assumes "environ ''OPENAI_API_KEY'' = None"
  shows "ChatEngine_init environ lib tmpl w =
           (w\<lparr>stderr := stderr w @ ''API key not found.''\<rparr>, Inl (SystemExit 1))
       \<and> calls (fst (ChatEngine_init environ lib tmpl w)) = calls w"
  using assms by (simp add: ChatEngine_init_def)

text \<open>
  With an empty environment the construction stops at the message; with the key set it
  goes on to construct its two collaborators.
\<close>

theorem ChatEngine_init_without_key_witness:
  "Map.empty ''OPENAI_API_KEY'' = (None :: string option)
   \<and> ChatEngine_init Map.empty demo_library (template demo_prompt) world0 =
       (world0\<lparr>stderr := ''API key not found.''\<rparr>, Inl (SystemExit 1))
   \<and> stderr world0 = []
   \<and> calls (fst (ChatEngine_init [''OPENAI_API_KEY'' \<mapsto> ''sk-demo''] demo_library
                   (template demo_prompt) world0)) = [New_QADataManager, New_ChatOpenAI]"
proof -
  have h: "Map.empty ''OPENAI_API_KEY'' = (None :: string option)" by simp
  have k: "calls (fst (ChatEngine_init [''OPENAI_API_KEY'' \<mapsto> ''sk-demo''] demo_library
                   (template demo_prompt) world0)) = [New_QADataManager, New_ChatOpenAI]"
    by (simp add: ChatEngine_init_def demo_library_def world0_def Let_def)
  from ChatEngine_init_without_key [OF h, of demo_library "template demo_prompt" world0] h k
  show ?thesis by (simp add: world0_def)
qed

text \<open>
  Claim C8. When \<^verbatim>\<open>chain.run\<close> raises during \<^verbatim>\<open>process_user_input\<close> with message
  \<open>m\<close>, the user's Turn with text \<open>m\<close> is already in the history and stays there: the
  failed call leaves the history exactly one Turn longer, with no Turn of the bot.
\<close>

theorem process_user_input_keeps_user_turn_on_chain_error:
  assumes "snd (snd (generate_best_practice e m w)) = Inr bp" and "chain e m bp = Inl x"
  shows "chat_history (fst (process_user_input e m w)) =
           chat_history e @ [\<lparr>turn_role = ''user'', turn_text = m\<rparr>]
       \<and> length (chat_history (fst (process_user_input e m w))) = length (chat_history e) + 1"
  using process_user_input_chain_raises [OF assms] by simp

text \<open>
  A chain that answers with a rate-limit error: the history holds the question alone.
\<close>

theorem process_user_input_keeps_user_turn_on_chain_error_witness:
  "snd (snd (generate_best_practice overloaded_engine ''How do I reset my password?'' world0)) =
     Inr [PyStr ''Use the self-service portal'']
   \<and> chain overloaded_engine ''How do I reset my password?'' [PyStr ''Use the self-service portal''] =
     Inl (OtherException ''RateLimitError'')
   \<and> chat_history (fst (process_user_input overloaded_engine ''How do I reset my password?'' world0)) =
     [\<lparr>turn_role = ''user'', turn_text = ''How do I reset my password?''\<rparr>]"
proof -
  let ?q = "''How do I reset my password?''"
  have h: "snd (snd (generate_best_practice overloaded_engine ?q world0)) =
      Inr [PyStr ''Use the self-service portal'']"
    by (simp add: demo_defs)
  have c: "chain overloaded_engine ?q [PyStr ''Use the self-service portal''] =
      Inl (OtherException ''RateLimitError'')"
    by (simp add: overloaded_engine_def)
  have n: "chat_history overloaded_engine = []" by (simp add: overloaded_engine_def demo_engine_def)
  from process_user_input_keeps_user_turn_on_chain_error [OF h c] h c n show ?thesis by simp
qed

text \<open>
  Claim C9. \<^verbatim>\<open>generate_best_practice\<close> never modifies the engine: whatever the
  retriever does, the engine after the call is the engine before it, history included.
\<close>

theorem generate_best_practice_keeps_engine:
  "fst (generate_best_practice e m w) = e
   \<and> chat_history (fst (generate_best_practice e m w)) = chat_history e"
  by (simp add: generate_best_practice_engine)

text \<open>
  A retriever that answers, one that raises a connection error and one that is
  interrupted all leave the engine as it was.
\<close>

theorem generate_best_practice_keeps_engine_witness:
  "fst (generate_best_practice demo_engine ''Hello'' world0) = demo_engine
   \<and> fst (generate_best_practice offline_engine ''Hello'' world0) = offline_engine
   \<and> fst (generate_best_practice interrupted_engine ''Hello'' world0) = interrupted_engine"
  using generate_best_practice_keeps_engine [of demo_engine "''Hello''" world0]
    generate_best_practice_keeps_engine [of offline_engine "''Hello''" world0]
    generate_best_practice_keeps_engine [of interrupted_engine "''Hello''" world0]
  by blast



end
